theory Spec2Isabelle
  imports Main "HOL-Library.Word" "HOL-Library.Sublist"
begin

section \<open>Strings and numbers of the host language\<close>

text \<open>
  A JavaScript string is a sequence of UTF-16 code units. String literals of the source
  are ASCII; \<open>lit\<close> turns an ASCII literal into its code units.
\<close>

type_synonym jsstring = "16 word list"

definition lit :: "string \<Rightarrow> jsstring" where
  "lit s = map of_char s"

text \<open>
  \<open>Number.prototype.toString\<close> on an integer: its decimal digits, with a minus sign
  when negative. The recursion peels the last digit off.
\<close>

definition digit_unit :: "nat \<Rightarrow> 16 word" where
  "digit_unit d = of_nat (48 + d)"

function nat_toString :: "nat \<Rightarrow> jsstring" where
  "nat_toString n =
     (if n < 10 then [digit_unit n] else nat_toString (n div 10) @ [digit_unit (n mod 10)])"
  by pat_completeness auto
termination
  by (relation "measure (\<lambda>n. n)") auto

declare nat_toString.simps [simp del]

definition int_toString :: "int \<Rightarrow> jsstring" where
  "int_toString i =
     (if i < 0 then lit ''-'' @ nat_toString (nat (- i)) else nat_toString (nat i))"

section \<open>The fetch helper\<close>

text \<open>
  \<open>fetch(url)\<close> issues one HTTPS GET. The request either fails in transport (the
  request's \<open>error\<close> event) or delivers a response: a status code and the body in
  chunks. \<open>JSON.parse\<close> is a parameter of the model; it answers \<open>None\<close> where it
  throws a \<open>SyntaxError\<close>.
\<close>

datatype http_event =
    RequestError jsstring
  | Response int "jsstring list"

datatype error =
    TransportError jsstring
  | SyntaxError
  | RejectString jsstring
  | TypeError
  | RejectedOneOf "error list"

definition status_ok :: "int \<Rightarrow> bool" where
  "status_ok statusCode = (statusCode \<ge> 200 \<or> statusCode \<le> 299)"

definition status_message :: "int \<Rightarrow> jsstring" where
  "status_message statusCode =
     lit ''Request could not be made. Status code: '' @ int_toString statusCode"

definition fetch :: "(jsstring \<Rightarrow> 'v option) \<Rightarrow> http_event \<Rightarrow> error + 'v" where
  "fetch JSON_parse ev =
     (case ev of
        RequestError e \<Rightarrow> Inl (TransportError e)
      | Response statusCode chunks \<Rightarrow>
          if status_ok statusCode then
            (let body = foldl (\<lambda>body chunk. body @ chunk) [] chunks in
             case JSON_parse body of
               None \<Rightarrow> Inl SyntaxError
             | Some v \<Rightarrow> Inr v)
          else Inl (RejectString (status_message statusCode)))"

section \<open>Escaping for the markup renderer\<close>

text \<open>
  \<open>text.replace(/[-[\]{}()*+!?.,\\^$|#\s]/g, '\\$&')\<close>: the pattern is one character
  class, so a match is a single code unit; the global replace scans from the left and
  puts a backslash before each matching unit. \<open>\s\<close> is the language's white space
  and line terminators.
\<close>

definition js_whitespace :: "16 word list" where
  "js_whitespace =
     [0x0009, 0x000A, 0x000B, 0x000C, 0x000D, 0x0020, 0x00A0, 0x1680,
      0x2000, 0x2001, 0x2002, 0x2003, 0x2004, 0x2005, 0x2006, 0x2007, 0x2008, 0x2009,
      0x200A, 0x2028, 0x2029, 0x202F, 0x205F, 0x3000, 0xFEFF]"

definition class_literals :: "16 word list" where
  "class_literals = lit ''-[]{}()*+!?.,'' @ [0x5C] @ lit ''^$|#''"

definition class_matches :: "16 word \<Rightarrow> bool" where
  "class_matches c = (c \<in> set class_literals \<or> c \<in> set js_whitespace)"

fun escapeRegExp :: "jsstring \<Rightarrow> jsstring" where
  "escapeRegExp [] = []"
| "escapeRegExp (c # cs) =
     (if class_matches c then 0x5C # c # escapeRegExp cs else c # escapeRegExp cs)"

text \<open>
  The reserved set as the specification lists it: the eighteen punctuation characters
  and white space.
\<close>

definition reserved_set :: "16 word set" where
  "reserved_set =
     of_char ` {CHR ''-'', CHR ''['', CHR '']'', CHR ''{'', CHR ''}'', CHR ''('', CHR '')'',
                CHR ''*'', CHR ''+'', CHR ''!'', CHR ''?'', CHR ''.'', CHR '','', CHR 0x5C,
                CHR ''^'', CHR ''$'', CHR ''|'', CHR ''#''}
     \<union> set js_whitespace"

section \<open>Dates\<close>

text \<open>
  \<open>new Date(s).getFullYear()\<close>. A time value is a number of milliseconds since the epoch
  (UTC); the year of a time value is the largest year that starts at or before it,
  with the day number of a year's first day given by the language's \<open>DayFromYear\<close>.
\<close>

definition msPerDay :: int where
  "msPerDay = 86400000"

definition Day :: "int \<Rightarrow> int" where
  "Day t = t div msPerDay"

definition DayFromYear :: "int \<Rightarrow> int" where
  "DayFromYear y =
     365 * (y - 1970) + (y - 1969) div 4 - (y - 1901) div 100 + (y - 1601) div 400"

lemma leap_terms_step:
  fixes a a' b b' c c' y :: int
  assumes "a \<le> a'" "b' \<le> b + 1" "c \<le> c'"
  shows "365 * (y - 1970) + a - b + c < 365 * (y + 1 - 1970) + a' - b' + c'"
  using assms by arith

lemma DayFromYear_step: "DayFromYear y < DayFromYear (y + 1)"
proof -
  have a: "(y - 1969) div 4 \<le> (y + 1 - 1969) div 4"
    by (rule zdiv_mono1) simp_all
  have b: "(y + 1 - 1901) div 100 \<le> (y - 1901) div 100 + 1"
    by (simp add: div_add1_eq)
  have c: "(y - 1601) div 400 \<le> (y + 1 - 1601) div 400"
    by (rule zdiv_mono1) simp_all
  show ?thesis
    unfolding DayFromYear_def by (rule leap_terms_step [OF a b c])
qed

text \<open>The search for the year of day \<open>d\<close>, upwards from a year that starts no later.\<close>

function year_up :: "int \<Rightarrow> int \<Rightarrow> int" where
  "year_up y d = (if DayFromYear (y + 1) \<le> d then year_up (y + 1) d else y)"
  by pat_completeness auto
termination
proof (relation "measure (\<lambda>(y, d). nat (d - DayFromYear y))")
  show "wf (measure (\<lambda>(y, d). nat (d - DayFromYear y)))"
    by simp
next
  fix y d :: int
  assume "DayFromYear (y + 1) \<le> d"
  then show "((y + 1, d), (y, d)) \<in> measure (\<lambda>(y, d). nat (d - DayFromYear y))"
    using DayFromYear_step [of y] by simp
qed

declare year_up.simps [simp del]

definition YearFromTime :: "int \<Rightarrow> int" where
  "YearFromTime t =
     (let d = Day t in year_up (1970 + (if 0 \<le> d then d div 366 else d div 365) - 1) d)"

definition InLeapYear :: "int \<Rightarrow> bool" where
  "InLeapYear y =
     (if y mod 4 = 0 then (if y mod 100 = 0 then y mod 400 = 0 else True) else False)"

definition DaysInMonth :: "int \<Rightarrow> nat \<Rightarrow> nat" where
  "DaysInMonth y m =
     (if m = 2 then (if InLeapYear y then 29 else 28)
      else if m = 4 \<or> m = 6 \<or> m = 9 \<or> m = 11 then 30 else 31)"

definition MakeDay :: "int \<Rightarrow> nat \<Rightarrow> nat \<Rightarrow> int" where
  "MakeDay y m d = DayFromYear y + int (sum_list (map (DaysInMonth y) [1..<m])) + int d - 1"

definition is_digit :: "16 word \<Rightarrow> bool" where
  "is_digit c = (0x30 \<le> c \<and> c \<le> 0x39)"

definition digits_value :: "jsstring \<Rightarrow> nat" where
  "digits_value ds = foldl (\<lambda>n c. 10 * n + (unat c - 48)) 0 ds"

text \<open>
  The date-only form \<open>YYYY-MM-DD\<close> of the language's date-time string format, read as
  UTC midnight of a day that exists. Every other string is left to the platform's own
  parser, a parameter of the model (\<open>legacy_date_parse\<close>, \<open>None\<close> for an invalid date).
\<close>

definition iso_date_only :: "jsstring \<Rightarrow> int option" where
  "iso_date_only s =
     (if length s = 10 \<and> s ! 4 = 0x2D \<and> s ! 7 = 0x2D
         \<and> list_all is_digit (take 4 s @ take 2 (drop 5 s) @ drop 8 s)
      then
        (let y = int (digits_value (take 4 s));
             m = digits_value (take 2 (drop 5 s));
             d = digits_value (drop 8 s)
         in if 1 \<le> m \<and> m \<le> 12 \<and> 1 \<le> d \<and> d \<le> DaysInMonth y m
            then Some (msPerDay * MakeDay y m d) else None)
      else None)"

definition TimeClip :: "int \<Rightarrow> int option" where
  "TimeClip t = (if \<bar>t\<bar> > 8640000000000000 then None else Some t)"

datatype jsnumber = NaN | Num int

section \<open>Data received from the catalogue\<close>

datatype Media = Movie | TV

text \<open>
  A search result as the code reads it. A field the code tests for presence
  (\<open>'title' in result\<close>) or that may be missing is an option; \<open>None\<close> is an absent
  property, which reads as \<open>undefined\<close>.
\<close>

record raw_result =
  result_id :: int
  title :: "jsstring option"
  name :: "jsstring option"
  release_date :: "jsstring option"
  first_air_date :: "jsstring option"
  poster_path :: "jsstring option"

record search =
  search_page :: int
  search_results :: "raw_result list option"
  total_pages :: int
  total_results :: int

record service =
  provider_name :: jsstring

record offers =
  flatrate :: "service list option"

record region_map =
  US :: "offers option"

record providers =
  wp_results :: "region_map option"

text \<open>
  A URL is represented by the request it addresses. The environment answers each request
  with an HTTP event, parses a body as the value its caller casts it to, and carries the
  platform's date parser and its local time zone adjustment.
\<close>

datatype request =
    SearchRequest Media jsstring int
  | DetailsRequest Media int
  | ProvidersRequest Media int
  | CatalogRequest Media

record 'd env =
  http_get :: "request \<Rightarrow> http_event"
  parse_search :: "jsstring \<Rightarrow> search option"
  parse_providers :: "jsstring \<Rightarrow> providers option"
  parse_details :: "jsstring \<Rightarrow> 'd option"
  legacy_date_parse :: "jsstring \<Rightarrow> int option"
  LocalTZA :: "int \<Rightarrow> int"

definition Date_parse :: "'d env \<Rightarrow> jsstring \<Rightarrow> int option" where
  "Date_parse env s =
     (case iso_date_only s of Some t \<Rightarrow> Some t | None \<Rightarrow> legacy_date_parse env s)"

definition new_Date :: "'d env \<Rightarrow> jsstring \<Rightarrow> int option" where
  "new_Date env s = (case Date_parse env s of None \<Rightarrow> None | Some t \<Rightarrow> TimeClip t)"

definition getFullYear :: "'d env \<Rightarrow> int option \<Rightarrow> jsnumber" where
  "getFullYear env tv =
     (case tv of None \<Rightarrow> NaN | Some t \<Rightarrow> Num (YearFromTime (t + LocalTZA env t)))"

definition mediaQuery :: "'d env \<Rightarrow> jsstring \<Rightarrow> Media \<Rightarrow> int \<Rightarrow> error + search" where
  "mediaQuery env query type page =
     fetch (parse_search env) (http_get env (SearchRequest type query page))"

definition getMediaById :: "'d env \<Rightarrow> int \<Rightarrow> Media \<Rightarrow> error + 'd" where
  "getMediaById env i type = fetch (parse_details env) (http_get env (DetailsRequest type i))"

definition getWatchProvidersByMediaId :: "'d env \<Rightarrow> int \<Rightarrow> Media \<Rightarrow> error + providers" where
  "getWatchProvidersByMediaId env i type =
     fetch (parse_providers env) (http_get env (ProvidersRequest type i))"

section \<open>The inline result formatter\<close>

text \<open>Template literals: \<open>undefined\<close> and \<open>NaN\<close> are spelled out.\<close>

definition string_in_template :: "jsstring option \<Rightarrow> jsstring" where
  "string_in_template v = (case v of None \<Rightarrow> lit ''undefined'' | Some s \<Rightarrow> s)"

definition number_in_template :: "jsnumber option \<Rightarrow> jsstring" where
  "number_in_template v =
     (case v of
        None \<Rightarrow> lit ''undefined''
      | Some NaN \<Rightarrow> lit ''NaN''
      | Some (Num i) \<Rightarrow> int_toString i)"

definition has_field :: "Media \<Rightarrow> raw_result \<Rightarrow> bool" where
  "has_field type result =
     (case type of Movie \<Rightarrow> title result \<noteq> None | TV \<Rightarrow> name result \<noteq> None)"

definition result_title :: "Media \<Rightarrow> raw_result \<Rightarrow> jsstring option" where
  "result_title type result = (case type of Movie \<Rightarrow> title result | TV \<Rightarrow> name result)"

definition result_date :: "Media \<Rightarrow> raw_result \<Rightarrow> jsstring option" where
  "result_date type result =
     (case type of
        Movie \<Rightarrow> (if title result \<noteq> None then release_date result else None)
      | TV \<Rightarrow> first_air_date result)"

text \<open>\<open>date ? new Date(date).getFullYear() : undefined\<close>: the empty string is falsy.\<close>

definition derived_year :: "'d env \<Rightarrow> jsstring option \<Rightarrow> jsnumber option" where
  "derived_year env date =
     (case date of
        None \<Rightarrow> None
      | Some s \<Rightarrow> if s = [] then None else Some (getFullYear env (new_Date env s)))"

text \<open>
  The \<open>watch\<close> text. An object and an array are truthy, so each test is a test for
  presence; \<open>forEach\<close> appends one line per service.
\<close>

definition us_flatrate :: "providers \<Rightarrow> service list option" where
  "us_flatrate ps =
     (case wp_results ps of
        None \<Rightarrow> None
      | Some regions \<Rightarrow> (case US regions of None \<Rightarrow> None | Some us \<Rightarrow> flatrate us))"

definition watch_text :: "providers \<Rightarrow> jsstring" where
  "watch_text ps =
     (case us_flatrate ps of
        None \<Rightarrow> []
      | Some services \<Rightarrow>
          foldl (\<lambda>watch service. watch @ provider_name service @ lit ''\<newline>'')
            (lit ''Streaming on:\<newline>'') services)"

record message_content =
  parse_mode :: jsstring
  message_text :: jsstring

record inline_result =
  ir_id :: int
  ir_type :: jsstring
  ir_title :: jsstring
  input_message_content :: message_content

definition title_line :: "'d env \<Rightarrow> Media \<Rightarrow> raw_result \<Rightarrow> jsstring" where
  "title_line env type result =
     string_in_template (result_title type result) @ lit '' ('' @
     number_in_template (derived_year env (result_date type result)) @ lit '')''"

definition make_inline_result :: "'d env \<Rightarrow> Media \<Rightarrow> raw_result \<Rightarrow> providers \<Rightarrow> inline_result" where
  "make_inline_result env type result ps =
     \<lparr> ir_id = result_id result,
       ir_type = lit ''article'',
       ir_title = title_line env type result,
       input_message_content =
         \<lparr> parse_mode = lit ''MarkdownV2'',
           message_text =
             escapeRegExp (title_line env type result @ lit ''\<newline>\<newline>'' @ watch_text ps) \<rparr> \<rparr>"

definition format_result :: "'d env \<Rightarrow> Media \<Rightarrow> raw_result \<Rightarrow> error + inline_result" where
  "format_result env type result =
     (case getWatchProvidersByMediaId env (result_id result) type of
        Inl e \<Rightarrow> Inl e
      | Inr ps \<Rightarrow> Inr (make_inline_result env type result ps))"

text \<open>
  \<open>Promise.all\<close>: the values in the order of the promises when all fulfil. When some
  reject, it rejects with the reason of the one that rejects first in time, which the
  model does not fix: \<open>RejectedOneOf\<close> lists the candidates in the order of the promises.
\<close>

fun lefts :: "('a + 'b) list \<Rightarrow> 'a list" where
  "lefts [] = []"
| "lefts (Inl e # ps) = e # lefts ps"
| "lefts (Inr v # ps) = lefts ps"

fun rights :: "('a + 'b) list \<Rightarrow> 'b list" where
  "rights [] = []"
| "rights (Inl e # ps) = rights ps"
| "rights (Inr v # ps) = v # rights ps"

definition Promise_all :: "(error + 'a) list \<Rightarrow> error + 'a list" where
  "Promise_all ps = (case lefts ps of [] \<Rightarrow> Inr (rights ps) | e # es \<Rightarrow> Inl (RejectedOneOf (e # es)))"

definition getInlineResultsMap ::
  "'d env \<Rightarrow> jsstring \<Rightarrow> Media \<Rightarrow> error + inline_result list option" where
  "getInlineResultsMap env query type =
     (case mediaQuery env query type 1 of
        Inl e \<Rightarrow> Inl e
      | Inr search \<Rightarrow>
          (case search_results search of
             None \<Rightarrow> Inr None
           | Some rs \<Rightarrow>
               (case Promise_all (map (format_result env type) (filter (has_field type) (take 10 rs))) of
                  Inl e \<Rightarrow> Inl e
                | Inr inlineResults \<Rightarrow> Inr (Some inlineResults))))"

text \<open>Spreading \<open>undefined\<close> into an array literal throws a \<open>TypeError\<close>.\<close>

definition getInlineResults :: "'d env \<Rightarrow> jsstring \<Rightarrow> error + inline_result list" where
  "getInlineResults env query =
     (case getInlineResultsMap env query Movie of
        Inl e \<Rightarrow> Inl e
      | Inr movies \<Rightarrow>
          (case getInlineResultsMap env query TV of
             Inl e \<Rightarrow> Inl e
           | Inr tv \<Rightarrow>
               (case movies of
                  None \<Rightarrow> Inl TypeError
                | Some ms \<Rightarrow>
                    (case tv of None \<Rightarrow> Inl TypeError | Some ts \<Rightarrow> Inr (ms @ ts)))))"

section \<open>The inline query handler\<close>

text \<open>
  The handler's effect is the list of calls it makes to the messaging platform; a
  rejection of \<open>getInlineResults\<close> leaves the handler's promise rejected with no call made.
\<close>

datatype bot_call = answerInlineQuery jsstring "inline_result list" int

definition inline_query_handler :: "'d env \<Rightarrow> jsstring \<Rightarrow> jsstring \<Rightarrow> error + bot_call list" where
  "inline_query_handler env query qid =
     (case getInlineResults env query of
        Inl e \<Rightarrow> Inl e
      | Inr results \<Rightarrow>
          Inr (if length results > 0 then [answerInlineQuery qid results 0] else []))"

section \<open>Example inputs\<close>

definition terminator :: raw_result where
  "terminator =
     \<lparr> result_id = 218, title = Some (lit ''The Terminator''), name = None,
       release_date = Some (lit ''1984-10-26''), first_air_date = None, poster_path = None \<rparr>"

definition undated :: raw_result where
  "undated =
     \<lparr> result_id = 7, title = Some (lit ''Untitled''), name = None,
       release_date = Some [], first_air_date = None, poster_path = None \<rparr>"

definition nameless :: raw_result where
  "nameless =
     \<lparr> result_id = 9, title = None, name = None,
       release_date = None, first_air_date = None, poster_path = None \<rparr>"

definition netflix :: providers where
  "netflix =
     \<lparr> wp_results =
         Some \<lparr> US = Some \<lparr> flatrate = Some [\<lparr> provider_name = lit ''Netflix'' \<rparr>] \<rparr> \<rparr> \<rparr>"

definition no_offers :: providers where
  "no_offers = \<lparr> wp_results = Some \<lparr> US = None \<rparr> \<rparr>"

definition empty_flatrate :: providers where
  "empty_flatrate = \<lparr> wp_results = Some \<lparr> US = Some \<lparr> flatrate = Some [] \<rparr> \<rparr> \<rparr>"

definition movie_page :: search where
  "movie_page =
     \<lparr> search_page = 1, search_results = Some [terminator, nameless, undated],
       total_pages = 1, total_results = 3 \<rparr>"

definition empty_page :: search where
  "empty_page = \<lparr> search_page = 1, search_results = Some [], total_pages = 1, total_results = 0 \<rparr>"

definition headless_page :: search where
  "headless_page = \<lparr> search_page = 1, search_results = None, total_pages = 0, total_results = 0 \<rparr>"

text \<open>
  An environment five hours west of UTC: the movie search answers \<open>movie_page\<close>, the
  TV search an empty page, title 218 streams on Netflix, title 7 has an empty
  subscription list.
\<close>

definition demo_env :: "unit env" where
  "demo_env =
     \<lparr> http_get =
         (\<lambda>r. case r of
                SearchRequest type q p \<Rightarrow>
                  Response 200 [case type of Movie \<Rightarrow> lit ''movies'' | TV \<Rightarrow> lit ''shows'']
              | ProvidersRequest type i \<Rightarrow>
                  Response 200 [if i = 218 then lit ''netflix'' else lit ''empty'']
              | DetailsRequest type i \<Rightarrow> Response 200 [lit ''details'']
              | CatalogRequest type \<Rightarrow> RequestError (lit ''ECONNRESET'')),
       parse_search =
         (\<lambda>body. if body = lit ''movies'' then Some movie_page
                 else if body = lit ''shows'' then Some empty_page else None),
       parse_providers =
         (\<lambda>body. if body = lit ''netflix'' then Some netflix
                 else if body = lit ''empty'' then Some empty_flatrate else None),
       parse_details = (\<lambda>body. if body = lit ''details'' then Some () else None),
       legacy_date_parse = (\<lambda>s. None),
       LocalTZA = (\<lambda>t. - 18000000) \<rparr>"

text \<open>The same environment with searches that find nothing, or that carry no result list.\<close>

definition quiet_env :: "unit env" where
  "quiet_env = demo_env \<lparr> parse_search := (\<lambda>body. Some empty_page) \<rparr>"

definition headless_env :: "unit env" where
  "headless_env = demo_env \<lparr> parse_search := (\<lambda>body. Some headless_page) \<rparr>"

section \<open>The watch-provider catalogue cache\<close>

text \<open>
  \<open>WATCH_PROVIDERS\<close> is a module-level \<open>Map\<close>. A call of \<open>getWatchProviders\<close> runs in
  two parts: up to \<open>await fetch(url)\<close>, where it either finds the key and returns
  or issues the fetch and is suspended; and from the settlement of that fetch, where it
  stores the value and returns \<open>WATCH_PROVIDERS.get(type)\<close>, or rejects. The state
  carries the map, the number of suspended calls per media type, and a log of the fetches
  issued and the entries written.
\<close>

datatype 'v effect = Fetched Media | CacheSet Media 'v

record 'v provider_cache =
  WATCH_PROVIDERS :: "Media \<Rightarrow> 'v option"
  awaiting :: "Media \<Rightarrow> nat"
  effects :: "'v effect list"

definition empty_cache :: "'v provider_cache" where
  "empty_cache = \<lparr> WATCH_PROVIDERS = (\<lambda>type. None), awaiting = (\<lambda>type. 0), effects = [] \<rparr>"

definition getWatchProviders_enter ::
  "Media \<Rightarrow> 'v provider_cache \<Rightarrow> 'v option option \<times> 'v provider_cache" where
  "getWatchProviders_enter type st =
     (if WATCH_PROVIDERS st type = None
      then (None, st \<lparr> awaiting := (awaiting st)(type := awaiting st type + 1),
                       effects := effects st @ [Fetched type] \<rparr>)
      else (Some (WATCH_PROVIDERS st type), st))"

definition getWatchProviders_resume ::
  "Media \<Rightarrow> error + 'v \<Rightarrow> 'v provider_cache \<Rightarrow> (error + 'v option) \<times> 'v provider_cache" where
  "getWatchProviders_resume type outcome st =
     (let st1 = st \<lparr> awaiting := (awaiting st)(type := awaiting st type - 1) \<rparr> in
      case outcome of
        Inl e \<Rightarrow> (Inl e, st1)
      | Inr v \<Rightarrow>
          (let st2 = st1 \<lparr> WATCH_PROVIDERS := (WATCH_PROVIDERS st1)(type \<mapsto> v),
                           effects := effects st1 @ [CacheSet type v] \<rparr>
           in (Inr (WATCH_PROVIDERS st2 type), st2)))"

text \<open>A call that nothing interleaves with: the fetch settles with \<open>outcome\<close>.\<close>

definition getWatchProviders ::
  "error + 'v \<Rightarrow> Media \<Rightarrow> 'v provider_cache \<Rightarrow> (error + 'v option) \<times> 'v provider_cache" where
  "getWatchProviders outcome type st =
     (case getWatchProviders_enter type st of
        (Some found, st') \<Rightarrow> (Inr found, st')
      | (None, st') \<Rightarrow> getWatchProviders_resume type outcome st')"

fun run_calls :: "(Media \<times> (error + 'v)) list \<Rightarrow> 'v provider_cache \<Rightarrow> 'v provider_cache" where
  "run_calls [] st = st"
| "run_calls ((type, outcome) # calls) st = run_calls calls (snd (getWatchProviders outcome type st))"

text \<open>
  Calls that overlap: a schedule of calls entering and fetches settling. A settlement
  needs a suspended call of its media type.
\<close>

datatype 'v action = Call Media | Settle Media "error + 'v"

fun run_schedule :: "'v action list \<Rightarrow> 'v provider_cache \<Rightarrow> 'v provider_cache option" where
  "run_schedule [] st = Some st"
| "run_schedule (Call type # as) st = run_schedule as (snd (getWatchProviders_enter type st))"
| "run_schedule (Settle type outcome # as) st =
     (if awaiting st type = 0 then None
      else run_schedule as (snd (getWatchProviders_resume type outcome st)))"

fun is_set :: "Media \<Rightarrow> 'v effect \<Rightarrow> bool" where
  "is_set type (CacheSet t v) = (t = type)"
| "is_set type (Fetched t) = False"

fun is_fetch :: "Media \<Rightarrow> 'v effect \<Rightarrow> bool" where
  "is_fetch type (Fetched t) = (t = type)"
| "is_fetch type (CacheSet t v) = False"

definition writes :: "Media \<Rightarrow> 'v provider_cache \<Rightarrow> nat" where
  "writes type st = length (filter (is_set type) (effects st))"

definition fetches :: "Media \<Rightarrow> 'v provider_cache \<Rightarrow> nat" where
  "fetches type st = length (filter (is_fetch type) (effects st))"

text \<open>The invariant of non-overlapping calls: an absent entry was never written.\<close>

definition cache_inv :: "'v provider_cache \<Rightarrow> bool" where
  "cache_inv st \<longleftrightarrow>
     (\<forall>type. writes type st \<le> 1 \<and> (WATCH_PROVIDERS st type = None \<longrightarrow> writes type st = 0))"

section \<open>The interactive search\<close>

text \<open>
  The operator's answers are a list of lines, one taken by each \<open>question\<close>; when the
  list runs out the pending promise never resolves, which is \<open>None\<close>. The output is the
  list of strings the code passes to \<open>process.stdout.write\<close>.
\<close>

fun handleUserInput ::
  "jsstring list \<Rightarrow> jsstring list \<Rightarrow> (jsstring list \<times> jsstring \<times> jsstring list) option" where
  "handleUserInput validResponses [] = None"
| "handleUserInput validResponses (response # rest) =
     (if response \<notin> set validResponses then
        (case handleUserInput validResponses rest of
           None \<Rightarrow> None
         | Some (out, answer, rest') \<Rightarrow> Some ((0x0D # 0x1B # lit ''[K'') # out, answer, rest'))
      else Some ([], response, rest))"

definition cli_title :: "raw_result \<Rightarrow> jsstring option" where
  "cli_title result = (case title result of Some t \<Rightarrow> Some t | None \<Rightarrow> name result)"

definition cli_date :: "raw_result \<Rightarrow> jsstring option" where
  "cli_date result =
     (case release_date result of Some d \<Rightarrow> Some d | None \<Rightarrow> first_air_date result)"

definition cli_year :: "'d env \<Rightarrow> raw_result \<Rightarrow> jsnumber" where
  "cli_year env result =
     getFullYear env (case cli_date result of None \<Rightarrow> None | Some s \<Rightarrow> new_Date env s)"

definition option_line :: "'d env \<Rightarrow> nat \<Rightarrow> raw_result \<Rightarrow> jsstring" where
  "option_line env index result =
     nat_toString (index + 1) @ lit ''. '' @ string_in_template (cli_title result)
     @ lit '' ('' @ number_in_template (Some (cli_year env result)) @ lit '')\<newline>''"

definition show_more_line :: "nat \<Rightarrow> jsstring" where
  "show_more_line n = nat_toString (n + 1) @ lit ''. [SHOW MORE RESULTS]\<newline>''"

text \<open>
  \<open>getAnswerFromUser\<close> numbers the results from one, writes a line for each and, when
  asked to, the line of the option for more results; \<open>menu\<close> is what it writes and
  \<open>optNums\<close> the numbers it gives to the results.
\<close>

definition optNums :: "raw_result list \<Rightarrow> jsstring list" where
  "optNums results = map (\<lambda>index. nat_toString (index + 1)) [0..<length results]"

definition menu :: "'d env \<Rightarrow> raw_result list \<Rightarrow> bool \<Rightarrow> jsstring list" where
  "menu env results showMoreResults =
     map (\<lambda>(index, result). option_line env index result) (zip [0..<length results] results)
     @ (if showMoreResults then [show_more_line (length results)] else [])"

definition getAnswerFromUser ::
  "'d env \<Rightarrow> raw_result list \<Rightarrow> bool \<Rightarrow> jsstring list
     \<Rightarrow> (jsstring list \<times> int option \<times> jsstring list) option" where
  "getAnswerFromUser env results showMoreResults inputs =
     (let resultsMap = map_of (rev (zip (optNums results) results));
          showMoreResultsOptNum = nat_toString (length results + 1);
          validChoices = optNums results @ (if showMoreResults then [showMoreResultsOptNum] else [])
      in case handleUserInput validChoices inputs of
           None \<Rightarrow> None
         | Some (out, choice, rest) \<Rightarrow>
             Some (menu env results showMoreResults @ out,
                   (case resultsMap choice of
                      Some result \<Rightarrow> Some (result_id result)
                    | None \<Rightarrow> None),
                   rest))"

text \<open>\<open>if (id)\<close>: \<open>undefined\<close> and the number zero are falsy.\<close>

definition truthy_id :: "int option \<Rightarrow> bool" where
  "truthy_id i = (case i of None \<Rightarrow> False | Some n \<Rightarrow> n \<noteq> 0)"

lemma handleUserInput_shorter:
  "handleUserInput validResponses inputs = Some (out, answer, rest) \<Longrightarrow>
     length rest < length inputs"
proof (induction inputs arbitrary: out)
  case Nil
  then show ?case by simp
next
  case (Cons response inputs)
  then show ?case
    by (fastforce split: if_splits option.splits)
qed

lemma getAnswerFromUser_shorter:
  "getAnswerFromUser env results showMoreResults inputs = Some (out, i, rest) \<Longrightarrow>
     length rest < length inputs"
  by (auto simp: getAnswerFromUser_def Let_def split: option.splits
           dest: handleUserInput_shorter)

function userSearch ::
  "'d env \<Rightarrow> jsstring \<Rightarrow> Media \<Rightarrow> int \<Rightarrow> jsstring list
     \<Rightarrow> (jsstring list \<times> (error + 'd option)) option" where
  "userSearch env query type page inputs =
     (case mediaQuery env query type page of
        Inl e \<Rightarrow> Some ([], Inl e)
      | Inr search \<Rightarrow>
          (case search_results search of
             None \<Rightarrow> Some ([], Inl TypeError)
           | Some results \<Rightarrow>
               (let currentPage = page;
                    showMoreResults = currentPage < total_pages search
                in case getAnswerFromUser env results showMoreResults inputs of
                     None \<Rightarrow> None
                   | Some (out, i, rest) \<Rightarrow>
                       if truthy_id i then
                         (case i of
                            None \<Rightarrow> Some (out, Inr None)
                          | Some n \<Rightarrow>
                              (case getMediaById env n type of
                                 Inl e \<Rightarrow> Some (out, Inl e)
                               | Inr details \<Rightarrow> Some (out, Inr (Some details))))
                       else if showMoreResults \<and> currentPage < total_pages search then
                         (case userSearch env query type (currentPage + 1) rest of
                            None \<Rightarrow> None
                          | Some (out', r) \<Rightarrow> Some (out @ out', r))
                       else Some (out, Inr None))))"
  by pat_completeness auto
termination
  by (relation "measure (\<lambda>(env, query, type, page, inputs). length inputs)")
     (auto dest: getAnswerFromUser_shorter)

declare userSearch.simps [simp del]

section \<open>Example inputs of the interactive search\<close>

definition catalog :: jsstring where
  "catalog = lit ''catalog''"

definition zero_id :: raw_result where
  "zero_id =
     \<lparr> result_id = 0, title = Some (lit ''Zero''), name = None,
       release_date = Some (lit ''1984-10-26''), first_air_date = None, poster_path = None \<rparr>"

definition zero_page :: search where
  "zero_page =
     \<lparr> search_page = 1, search_results = Some [zero_id], total_pages = 3, total_results = 3 \<rparr>"

definition later_page :: search where
  "later_page =
     \<lparr> search_page = 2, search_results = Some [terminator], total_pages = 3, total_results = 3 \<rparr>"

definition three_pages :: search where
  "three_pages =
     \<lparr> search_page = 1, search_results = Some [terminator, undated],
       total_pages = 3, total_results = 6 \<rparr>"

text \<open>
  An environment on UTC whose first search page holds the title with identifier zero and
  whose later pages hold title 218; the details of a title are its identifier in decimal.
\<close>

definition zero_env :: "jsstring env" where
  "zero_env =
     \<lparr> http_get =
         (\<lambda>r. case r of
                SearchRequest type q p \<Rightarrow>
                  Response 200 [if p = 1 then lit ''first'' else lit ''later'']
              | DetailsRequest type i \<Rightarrow> Response 200 [int_toString i]
              | ProvidersRequest type i \<Rightarrow> RequestError (lit ''ECONNRESET'')
              | CatalogRequest type \<Rightarrow> RequestError (lit ''ECONNRESET'')),
       parse_search =
         (\<lambda>body. if body = lit ''first'' then Some zero_page
                 else if body = lit ''later'' then Some later_page else None),
       parse_providers = (\<lambda>body. None),
       parse_details = (\<lambda>body. Some body),
       legacy_date_parse = (\<lambda>s. None),
       LocalTZA = (\<lambda>t. 0) \<rparr>"

definition paged_env :: "unit env" where
  "paged_env = demo_env \<lparr> parse_search := (\<lambda>body. Some three_pages) \<rparr>"

section \<open>Properties of the fetch helper\<close>

lemma status_ok_always: "status_ok statusCode"
  unfolding status_ok_def by arith

text \<open>
  Claim C1. For every response and every integer status code the success test
  \<open>statusCode >= 200 || statusCode <= 299\<close> is true; the branch that rejects with
  "Request could not be made. Status code: ..." is never taken, and the body is handed to
  the JSON parser whatever the status is.
\<close>

theorem fetch_status_check_tautology:
  "status_ok statusCode
   \<and> fetch JSON_parse (Response statusCode chunks) \<noteq> Inl (RejectString m)
   \<and> fetch JSON_parse (Response statusCode chunks) =
       (case JSON_parse (foldl (\<lambda>body chunk. body @ chunk) [] chunks) of
          None \<Rightarrow> Inl SyntaxError
        | Some v \<Rightarrow> Inr v)"
  by (simp add: fetch_def status_ok_always split: option.split)

section \<open>Properties of the escaping\<close>

lemma class_matches_reserved: "class_matches c \<longleftrightarrow> c \<in> reserved_set"
  by (auto simp: class_matches_def class_literals_def reserved_set_def lit_def)

lemma escapeRegExp_concat_map:
  "escapeRegExp text = concat (map (\<lambda>c. if c \<in> reserved_set then [0x5C, c] else [c]) text)"
  by (induction "text") (simp_all add: class_matches_reserved)

lemma escapeRegExp_append: "escapeRegExp (xs @ ys) = escapeRegExp xs @ escapeRegExp ys"
  by (induction xs) simp_all

lemma escapeRegExp_unreserved: "set text \<inter> reserved_set = {} \<Longrightarrow> escapeRegExp text = text"
  by (induction "text") (auto simp: class_matches_reserved)

text \<open>
  Claim C3. For every input, \<open>escapeRegExp\<close> puts exactly one backslash before every
  occurrence of a reserved character and leaves every other character as it is; an input
  with no reserved character comes back unchanged.
\<close>

theorem escapeRegExp_prefixes_reserved:
  "escapeRegExp text = concat (map (\<lambda>c. if c \<in> reserved_set then [0x5C, c] else [c]) text)
   \<and> (set text \<inter> reserved_set = {} \<longrightarrow> escapeRegExp text = text)"
  using escapeRegExp_concat_map escapeRegExp_unreserved by blast

theorem escapeRegExp_prefixes_reserved_witness:
  "escapeRegExp (lit ''a.b c'') = lit ''a'' @ [0x5C] @ lit ''.b'' @ [0x5C] @ lit '' c''
   \<and> set (lit ''abc'') \<inter> reserved_set = {}
   \<and> escapeRegExp (lit ''abc'') = lit ''abc''"
proof -
  have unreserved: "set (lit ''abc'') \<inter> reserved_set = {}"
    by (simp add: lit_def reserved_set_def js_whitespace_def)
  have "escapeRegExp (lit ''a.b c'') =
          concat (map (\<lambda>c. if c \<in> reserved_set then [0x5C, c] else [c]) (lit ''a.b c''))"
    using escapeRegExp_prefixes_reserved [of "lit ''a.b c''"] by blast
  moreover have "escapeRegExp (lit ''abc'') = lit ''abc''"
    using escapeRegExp_prefixes_reserved [of "lit ''abc''"] unreserved by blast
  ultimately show ?thesis
    using unreserved by (simp add: lit_def reserved_set_def js_whitespace_def)
qed

section \<open>Year derivation\<close>

lemma iso_terminator: "iso_date_only (lit ''1984-10-26'') = Some 467596800000"
  by code_simp

lemma Day_near: 
  assumes "\<bar>z\<bar> \<le> msPerDay"
  shows "5411 \<le> Day (467596800000 + z) \<and> Day (467596800000 + z) \<le> 5413"
  using assms unfolding Day_def msPerDay_def by arith

lemma year_up_1984: "5411 \<le> d \<Longrightarrow> d \<le> 5413 \<Longrightarrow> year_up 1983 d = 1984"
  by (simp add: year_up.simps [of 1983] year_up.simps [of 1984] DayFromYear_def)

lemma YearFromTime_near:
  assumes "\<bar>z\<bar> \<le> msPerDay"
  shows "YearFromTime (467596800000 + z) = 1984"
proof -
  let ?d = "Day (467596800000 + z)"
  have d: "5411 \<le> ?d" "?d \<le> 5413" using Day_near [OF assms] by simp_all
  then have "?d div 366 = 14" by arith
  with d show ?thesis by (simp add: YearFromTime_def Let_def year_up_1984)
qed

lemma derived_year_terminator:
  assumes "\<bar>LocalTZA env 467596800000\<bar> \<le> msPerDay"
  shows "derived_year env (Some (lit ''1984-10-26'')) = Some (Num 1984)"
proof -
  have ne: "lit ''1984-10-26'' \<noteq> []" by (simp add: lit_def)
  have "new_Date env (lit ''1984-10-26'') = Some 467596800000"
    by (simp add: new_Date_def Date_parse_def iso_terminator TimeClip_def)
  then show ?thesis using ne YearFromTime_near [OF assms]
    by (simp add: derived_year_def getFullYear_def)
qed

lemma escape_paren_undefined:
  "escapeRegExp (lit '' (undefined)'' @ lit ''\<newline>\<newline>'') =
     [0x5C, 0x20, 0x5C, 0x28] @ lit ''undefined'' @ [0x5C, 0x29, 0x5C, 0x0A, 0x5C, 0x0A]"
  by (simp add: lit_def class_matches_def class_literals_def js_whitespace_def)

lemma title_line_undated:
  "result_date type result = Some [] \<Longrightarrow>
   title_line env type result = string_in_template (result_title type result) @ lit '' (undefined)''"
  by (simp add: title_line_def derived_year_def number_in_template_def lit_def)

text \<open>
  Claim C4, as the code has it. The date string \<open>1984-10-26\<close> gives the year 1984
  (in every time zone within a day of UTC). An empty date string gives the year
  \<open>undefined\<close>, and the template literal spells it out: the segment is
  \<open>(undefined)\<close> in the title, and its escaped form in the message body.
\<close>

theorem year_derivation:
  "(\<bar>LocalTZA env 467596800000\<bar> \<le> msPerDay \<longrightarrow>
      derived_year env (Some (lit ''1984-10-26'')) = Some (Num 1984))
   \<and> derived_year env (Some []) = None
   \<and> (result_date type result = Some [] \<longrightarrow>
        ir_title (make_inline_result env type result ps) =
          string_in_template (result_title type result) @ lit '' (undefined)''
        \<and> message_text (input_message_content (make_inline_result env type result ps)) =
            escapeRegExp (string_in_template (result_title type result))
            @ [0x5C, 0x20, 0x5C, 0x28] @ lit ''undefined'' @ [0x5C, 0x29, 0x5C, 0x0A, 0x5C, 0x0A]
            @ escapeRegExp (watch_text ps))"
proof (intro conjI impI)
  assume "\<bar>LocalTZA env 467596800000\<bar> \<le> msPerDay"
  then show "derived_year env (Some (lit ''1984-10-26'')) = Some (Num 1984)"
    by (rule derived_year_terminator)
next
  show "derived_year env (Some []) = None"
    by (simp add: derived_year_def)
next
  assume "result_date type result = Some []"
  then show "ir_title (make_inline_result env type result ps) =
          string_in_template (result_title type result) @ lit '' (undefined)''"
    by (simp add: make_inline_result_def title_line_undated)
next
  assume d: "result_date type result = Some []"
  have "message_text (input_message_content (make_inline_result env type result ps)) =
      escapeRegExp (string_in_template (result_title type result))
      @ escapeRegExp (lit '' (undefined)'' @ lit ''\<newline>\<newline>'') @ escapeRegExp (watch_text ps)"
    by (simp add: make_inline_result_def title_line_undated [OF d] escapeRegExp_append)
  then show "message_text (input_message_content (make_inline_result env type result ps)) =
            escapeRegExp (string_in_template (result_title type result))
            @ [0x5C, 0x20, 0x5C, 0x28] @ lit ''undefined'' @ [0x5C, 0x29, 0x5C, 0x0A, 0x5C, 0x0A]
            @ escapeRegExp (watch_text ps)"
    by (simp only: escape_paren_undefined append_assoc)
qed

lemma undated_date: "result_date Movie undated = Some []"
  by (simp add: result_date_def undated_def)

lemma demo_tza: "\<bar>LocalTZA demo_env 467596800000\<bar> \<le> msPerDay"
  by (simp add: demo_env_def msPerDay_def)

theorem year_derivation_witness:
  "\<bar>LocalTZA demo_env 467596800000\<bar> \<le> msPerDay
   \<and> derived_year demo_env (Some (lit ''1984-10-26'')) = Some (Num 1984)
   \<and> result_date Movie undated = Some []
   \<and> ir_title (make_inline_result demo_env Movie undated no_offers) = lit ''Untitled (undefined)''"
  using year_derivation [of demo_env Movie undated no_offers] undated_date demo_tza
  by (simp add: result_title_def undated_def string_in_template_def lit_def)

text \<open>
  The claim's reading that the segment renders as \<open>()\<close> fails on a result whose release
  date is the empty string.
\<close>

theorem year_segment_counterexample:
  "result_date Movie undated = Some []
   \<and> ir_title (make_inline_result demo_env Movie undated no_offers) = lit ''Untitled (undefined)''
   \<and> ir_title (make_inline_result demo_env Movie undated no_offers) \<noteq> lit ''Untitled ()''
   \<and> \<not> suffix (lit ''()'') (ir_title (make_inline_result demo_env Movie undated no_offers))
   \<and> message_text (input_message_content (make_inline_result demo_env Movie undated no_offers))
       = lit ''Untitled'' @ [0x5C, 0x20, 0x5C, 0x28] @ lit ''undefined'' @ [0x5C, 0x29, 0x5C, 0x0A, 0x5C, 0x0A]"
  by code_simp

section \<open>The streaming block\<close>

lemma escape_newline: "escapeRegExp (lit ''\<newline>'') = [0x5C, 0x0A]"
  by (simp add: lit_def class_matches_def js_whitespace_def)

lemma escape_watch_lines:
  "escapeRegExp (foldl (\<lambda>watch service. watch @ provider_name service @ lit ''\<newline>'') init services) =
     escapeRegExp init
     @ concat (map (\<lambda>service. escapeRegExp (provider_name service) @ [0x5C, 0x0A]) services)"
  by (induction services arbitrary: init) (simp_all add: escapeRegExp_append escape_newline)

lemma escape_watch_text:
  "escapeRegExp (watch_text ps) =
     (case us_flatrate ps of
        None \<Rightarrow> []
      | Some services \<Rightarrow>
          escapeRegExp (lit ''Streaming on:\<newline>'')
          @ concat (map (\<lambda>service. escapeRegExp (provider_name service) @ [0x5C, 0x0A]) services))"
  by (simp add: watch_text_def escape_watch_lines split: option.split)

lemma format_result_Inr:
  "format_result env type result = Inr r \<longleftrightarrow>
     (\<exists>ps. getWatchProvidersByMediaId env (result_id result) type = Inr ps
           \<and> r = make_inline_result env type result ps)"
  by (auto simp: format_result_def split: sum.splits)

text \<open>
  Claim C5, as the code has it. The message body of a formatted result is the escaped
  header followed, when the US entry of the watch-provider data has a \<open>flatrate\<close> list
  (empty or not), by the escaped line \<open>Streaming on:\<close> and one escaped line per
  provider name; without such a list the body is the escaped header alone. Escaping puts
  a backslash before the blank and before each line break.
\<close>

theorem streaming_block:
  assumes "format_result env type result = Inr r"
  shows "\<exists>ps. getWatchProvidersByMediaId env (result_id result) type = Inr ps
           \<and> message_text (input_message_content r) =
               escapeRegExp (title_line env type result @ lit ''\<newline>\<newline>'')
               @ (case us_flatrate ps of
                    None \<Rightarrow> []
                  | Some services \<Rightarrow>
                      escapeRegExp (lit ''Streaming on:\<newline>'')
                      @ concat (map (\<lambda>service. escapeRegExp (provider_name service) @ [0x5C, 0x0A])
                                 services))"
proof -
  from assms obtain ps where ps: "getWatchProvidersByMediaId env (result_id result) type = Inr ps"
    and r: "r = make_inline_result env type result ps"
    by (auto simp: format_result_Inr)
  have "message_text (input_message_content r) =
          escapeRegExp (title_line env type result @ lit ''\<newline>\<newline>'') @ escapeRegExp (watch_text ps)"
    by (simp add: r make_inline_result_def escapeRegExp_append)
  with ps show ?thesis
    by (auto simp: escape_watch_text)
qed

lemma demo_providers_218: "getWatchProvidersByMediaId demo_env 218 Movie = Inr netflix"
  by (simp add: getWatchProvidersByMediaId_def demo_env_def fetch_def status_ok_def)

lemma demo_providers_7: "getWatchProvidersByMediaId demo_env 7 Movie = Inr empty_flatrate"
  by (simp add: getWatchProvidersByMediaId_def demo_env_def fetch_def status_ok_def lit_def)

lemma demo_format_terminator:
  "format_result demo_env Movie terminator = Inr (make_inline_result demo_env Movie terminator netflix)"
  by (simp add: format_result_def terminator_def demo_providers_218)

lemma demo_format_undated:
  "format_result demo_env Movie undated = Inr (make_inline_result demo_env Movie undated empty_flatrate)"
  by (simp add: format_result_def undated_def demo_providers_7)

lemma netflix_flatrate: "us_flatrate netflix = Some [\<lparr> provider_name = lit ''Netflix'' \<rparr>]"
  by (simp add: us_flatrate_def netflix_def)

theorem streaming_block_witness:
  "format_result demo_env Movie terminator = Inr (make_inline_result demo_env Movie terminator netflix)
   \<and> message_text (input_message_content (make_inline_result demo_env Movie terminator netflix)) =
       escapeRegExp (title_line demo_env Movie terminator @ lit ''\<newline>\<newline>'')
       @ escapeRegExp (lit ''Streaming on:\<newline>'') @ escapeRegExp (lit ''Netflix'') @ [0x5C, 0x0A]"
  using streaming_block [OF demo_format_terminator] demo_format_terminator
  by (simp add: terminator_def demo_providers_218 netflix_flatrate)

text \<open>
  The body does not end in the unescaped block, and an empty \<open>flatrate\<close> list still
  produces the \<open>Streaming on:\<close> line.
\<close>

theorem streaming_block_counterexample:
  "format_result demo_env Movie terminator = Inr (make_inline_result demo_env Movie terminator netflix)
   \<and> us_flatrate netflix = Some [\<lparr> provider_name = lit ''Netflix'' \<rparr>]
   \<and> \<not> suffix (lit ''Streaming on:\<newline>Netflix\<newline>'')
         (message_text (input_message_content (make_inline_result demo_env Movie terminator netflix)))
   \<and> format_result demo_env Movie undated = Inr (make_inline_result demo_env Movie undated empty_flatrate)
   \<and> us_flatrate empty_flatrate = Some []
   \<and> message_text (input_message_content (make_inline_result demo_env Movie undated empty_flatrate))
       \<noteq> escapeRegExp (title_line demo_env Movie undated @ lit ''\<newline>\<newline>'')"
proof -
  have a: "\<not> suffix (lit ''Streaming on:\<newline>Netflix\<newline>'')
         (message_text (input_message_content (make_inline_result demo_env Movie terminator netflix)))"
    by code_simp
  have b: "message_text (input_message_content (make_inline_result demo_env Movie undated empty_flatrate))
       \<noteq> escapeRegExp (title_line demo_env Movie undated @ lit ''\<newline>\<newline>'')"
    by code_simp
  have c: "us_flatrate empty_flatrate = Some []"
    by (simp add: us_flatrate_def empty_flatrate_def)
  show ?thesis
    using a b c demo_format_terminator demo_format_undated netflix_flatrate by simp
qed

section \<open>The inline result list\<close>

lemma lefts_rights_map:
  "lefts (map f xs) = [] \<and> rights (map f xs) = ys \<longleftrightarrow> list_all2 (\<lambda>y x. f x = Inr y) ys xs"
proof (induction xs arbitrary: ys)
  case Nil
  then show ?case by auto
next
  case (Cons x xs)
  show ?case
  proof (cases "f x")
    case (Inl e)
    then show ?thesis by (auto simp: list_all2_Cons2)
  next
    case (Inr v)
    then show ?thesis using Cons.IH by (auto simp: list_all2_Cons2)
  qed
qed

lemma Promise_all_Inr_iff:
  "Promise_all (map f xs) = Inr ys \<longleftrightarrow> list_all2 (\<lambda>y x. f x = Inr y) ys xs"
proof -
  have "Promise_all (map f xs) = Inr ys \<longleftrightarrow> lefts (map f xs) = [] \<and> rights (map f xs) = ys"
    by (auto simp: Promise_all_def split: list.splits)
  then show ?thesis by (simp add: lefts_rights_map)
qed

lemma getInlineResultsMap_Some_iff:
  "getInlineResultsMap env query type = Inr (Some out) \<longleftrightarrow>
     (\<exists>search raw. mediaQuery env query type 1 = Inr search \<and> search_results search = Some raw
        \<and> list_all2 (\<lambda>ir result. format_result env type result = Inr ir) out
             (filter (has_field type) (take 10 raw)))"
proof (cases "mediaQuery env query type 1")
  case (Inl e)
  then show ?thesis by (simp add: getInlineResultsMap_def)
next
  case (Inr search)
  show ?thesis
  proof (cases "search_results search")
    case None
    with Inr show ?thesis by (simp add: getInlineResultsMap_def)
  next
    case (Some raw)
    have "getInlineResultsMap env query type = Inr (Some out) \<longleftrightarrow>
            Promise_all (map (format_result env type) (filter (has_field type) (take 10 raw))) = Inr out"
      using Inr Some by (simp add: getInlineResultsMap_def split: sum.splits)
    with Inr Some show ?thesis by (simp add: Promise_all_Inr_iff)
  qed
qed

lemma getInlineResults_Inr_iff:
  "getInlineResults env query = Inr inlineResults \<longleftrightarrow>
     (\<exists>movies tv. getInlineResultsMap env query Movie = Inr (Some movies)
        \<and> getInlineResultsMap env query TV = Inr (Some tv) \<and> inlineResults = movies @ tv)"
  by (auto simp: getInlineResults_def split: sum.splits option.splits)

text \<open>
  Claim C2. When the movie search and the TV search both succeed, the list that
  \<open>getInlineResults\<close> returns is the formatted movie results followed by the formatted TV
  results, and each group follows the order of the raw results of its search (the first
  ten, those that carry the distinguishing field): position by position, the formatted
  result is the one made from the raw result. Such a list is returned exactly when both
  searches carry a result list and every provider lookup succeeds.
\<close>

theorem inline_results_order:
  assumes "mediaQuery env query Movie 1 = Inr movieSearch"
    and "mediaQuery env query TV 1 = Inr tvSearch"
  shows "getInlineResults env query = Inr inlineResults \<longleftrightarrow>
     (\<exists>movieRaw tvRaw movies tv.
        search_results movieSearch = Some movieRaw \<and> search_results tvSearch = Some tvRaw
        \<and> inlineResults = movies @ tv
        \<and> list_all2 (\<lambda>ir result. format_result env Movie result = Inr ir) movies
             (filter (has_field Movie) (take 10 movieRaw))
        \<and> list_all2 (\<lambda>ir result. format_result env TV result = Inr ir) tv
             (filter (has_field TV) (take 10 tvRaw)))"
  using assms by (auto simp: getInlineResults_Inr_iff getInlineResultsMap_Some_iff)

lemma ir_id_format: "format_result env type result = Inr ir \<Longrightarrow> ir_id ir = result_id result"
  by (auto simp: format_result_Inr make_inline_result_def)

text \<open>
  Claim C9. Every formatted result that \<open>getInlineResultsMap\<close> returns is made from a raw
  result among the first ten that has the distinguishing field of the media type
  (\<open>title\<close> for a movie, \<open>name\<close> for TV); the raw results among the first ten without
  the field have no counterpart in the output.
\<close>

theorem inline_results_have_field:
  assumes "getInlineResultsMap env query type = Inr (Some out)"
  shows "\<exists>search raw. mediaQuery env query type 1 = Inr search \<and> search_results search = Some raw
     \<and> list_all2 (\<lambda>ir result. format_result env type result = Inr ir) out
          (filter (has_field type) (take 10 raw))
     \<and> (\<forall>ir \<in> set out. \<exists>result \<in> set (take 10 raw).
            has_field type result \<and> format_result env type result = Inr ir
            \<and> ir_id ir = result_id result)
     \<and> length out + length (filter (\<lambda>result. \<not> has_field type result) (take 10 raw))
          = length (take 10 raw)"
proof -
  from assms obtain search raw where s: "mediaQuery env query type 1 = Inr search"
    "search_results search = Some raw"
    and all2: "list_all2 (\<lambda>ir result. format_result env type result = Inr ir) out
             (filter (has_field type) (take 10 raw))"
    by (auto simp: getInlineResultsMap_Some_iff)
  have members: "\<forall>ir \<in> set out. \<exists>result \<in> set (take 10 raw).
            has_field type result \<and> format_result env type result = Inr ir
            \<and> ir_id ir = result_id result"
  proof
    fix ir assume "ir \<in> set out"
    then obtain i where i: "i < length out" "out ! i = ir"
      by (auto simp: in_set_conv_nth)
    let ?kept = "filter (has_field type) (take 10 raw)"
    have len: "length out = length ?kept"
      using all2 by (rule list_all2_lengthD)
    have fmt: "format_result env type (?kept ! i) = Inr ir"
      using list_all2_nthD [OF all2 i(1)] i(2) by simp
    have "i < length ?kept"
      using i(1) len by simp
    then have "?kept ! i \<in> set ?kept"
      by (rule nth_mem)
    then have "?kept ! i \<in> set (take 10 raw)" "has_field type (?kept ! i)"
      by simp_all
    with fmt show "\<exists>result \<in> set (take 10 raw).
            has_field type result \<and> format_result env type result = Inr ir
            \<and> ir_id ir = result_id result"
      using ir_id_format by blast
  qed
  have "length out = length (filter (has_field type) (take 10 raw))"
    using all2 by (rule list_all2_lengthD)
  then have "length out + length (filter (\<lambda>result. \<not> has_field type result) (take 10 raw))
          = length (take 10 raw)"
    using sum_length_filter_compl [of "has_field type" "take 10 raw"] by simp
  with s all2 members show ?thesis by blast
qed

text \<open>
  Claim C10. When the parsed search response of a media type has no \<open>results\<close> field,
  \<open>getInlineResultsMap\<close> returns \<open>undefined\<close> and not an empty list;
  \<open>getInlineResults\<close> then ends in an error, a \<open>TypeError\<close> from spreading
  \<open>undefined\<close> whenever both per-type calls return, and the handler ends in the error
  path without the reply-free success of an empty list.
\<close>

theorem missing_results_field:
  assumes "mediaQuery env query type 1 = Inr search"
    and "search_results search = None"
  shows "getInlineResultsMap env query type = Inr None
     \<and> (\<exists>e. getInlineResults env query = Inl e)
     \<and> ((\<exists>movies tv. getInlineResultsMap env query Movie = Inr movies
            \<and> getInlineResultsMap env query TV = Inr tv)
          \<longrightarrow> getInlineResults env query = Inl TypeError)
     \<and> (\<exists>e. inline_query_handler env query qid = Inl e)"
proof -
  have m: "getInlineResultsMap env query type = Inr None"
    using assms by (simp add: getInlineResultsMap_def)
  have e: "\<exists>e. getInlineResults env query = Inl e"
    using m by (cases type) (auto simp: getInlineResults_def split: sum.splits option.splits)
  have t: "(\<exists>movies tv. getInlineResultsMap env query Movie = Inr movies
            \<and> getInlineResultsMap env query TV = Inr tv)
          \<longrightarrow> getInlineResults env query = Inl TypeError"
    using m by (cases type) (auto simp: getInlineResults_def split: sum.splits option.splits)
  from e have "\<exists>e. inline_query_handler env query qid = Inl e"
    by (auto simp: inline_query_handler_def)
  with m e t show ?thesis by blast
qed

text \<open>
  Claim C6. When the combined list is empty the handler makes no call to
  \<open>answerInlineQuery\<close>; when it is not empty the handler answers the query once with
  that list.
\<close>

theorem handler_replies_iff_nonempty:
  "(getInlineResults env query = Inr [] \<longrightarrow> inline_query_handler env query qid = Inr [])
   \<and> (getInlineResults env query = Inr results \<and> results \<noteq> [] \<longrightarrow>
        inline_query_handler env query qid = Inr [answerInlineQuery qid results 0])"
  by (auto simp: inline_query_handler_def)


lemma demo_movie_search: "mediaQuery demo_env query Movie 1 = Inr movie_page"
  by (simp add: mediaQuery_def demo_env_def fetch_def status_ok_def)

lemma demo_tv_search: "mediaQuery demo_env query TV 1 = Inr empty_page"
  by (simp add: mediaQuery_def demo_env_def fetch_def status_ok_def lit_def)

lemma movie_page_kept:
  "search_results movie_page = Some [terminator, nameless, undated]
   \<and> filter (has_field Movie) (take 10 [terminator, nameless, undated]) = [terminator, undated]"
  by (simp add: movie_page_def has_field_def terminator_def nameless_def undated_def)

lemma empty_page_results: "search_results empty_page = Some []"
  by (simp add: empty_page_def)

lemma demo_movie_map:
  "getInlineResultsMap demo_env query Movie =
     Inr (Some [make_inline_result demo_env Movie terminator netflix,
                make_inline_result demo_env Movie undated empty_flatrate])"
  unfolding getInlineResultsMap_Some_iff
  using demo_movie_search movie_page_kept demo_format_terminator demo_format_undated
  by auto

lemma demo_tv_map: "getInlineResultsMap demo_env query TV = Inr (Some [])"
  unfolding getInlineResultsMap_Some_iff
  using demo_tv_search empty_page_results by auto

theorem inline_results_order_witness:
  "mediaQuery demo_env (lit ''terminator'') Movie 1 = Inr movie_page
   \<and> mediaQuery demo_env (lit ''terminator'') TV 1 = Inr empty_page
   \<and> getInlineResults demo_env (lit ''terminator'') =
       Inr [make_inline_result demo_env Movie terminator netflix,
            make_inline_result demo_env Movie undated empty_flatrate]"
proof -
  let ?movies = "[make_inline_result demo_env Movie terminator netflix,
                  make_inline_result demo_env Movie undated empty_flatrate]"
  have "\<exists>movieRaw tvRaw movies tv.
        search_results movie_page = Some movieRaw \<and> search_results empty_page = Some tvRaw
        \<and> ?movies = movies @ tv
        \<and> list_all2 (\<lambda>ir result. format_result demo_env Movie result = Inr ir) movies
             (filter (has_field Movie) (take 10 movieRaw))
        \<and> list_all2 (\<lambda>ir result. format_result demo_env TV result = Inr ir) tv
             (filter (has_field TV) (take 10 tvRaw))"
  proof (intro exI conjI)
    show "search_results movie_page = Some [terminator, nameless, undated]"
      using movie_page_kept by simp
    show "search_results empty_page = Some []"
      by (rule empty_page_results)
    show "?movies = ?movies @ []"
      by simp
    show "list_all2 (\<lambda>ir result. format_result demo_env Movie result = Inr ir) ?movies
             (filter (has_field Movie) (take 10 [terminator, nameless, undated]))"
      using movie_page_kept demo_format_terminator demo_format_undated by simp
    show "list_all2 (\<lambda>ir result. format_result demo_env TV result = Inr ir) []
             (filter (has_field TV) (take 10 []))"
      by simp
  qed
  then have "getInlineResults demo_env (lit ''terminator'') = Inr ?movies"
    using inline_results_order [OF demo_movie_search demo_tv_search, of "lit ''terminator''" ?movies]
    by blast
  then show ?thesis
    using demo_movie_search demo_tv_search by simp
qed

theorem inline_results_have_field_witness:
  "getInlineResultsMap demo_env (lit ''terminator'') Movie =
     Inr (Some [make_inline_result demo_env Movie terminator netflix,
                make_inline_result demo_env Movie undated empty_flatrate])
   \<and> (\<exists>search raw. mediaQuery demo_env (lit ''terminator'') Movie 1 = Inr search
         \<and> search_results search = Some raw
         \<and> length [make_inline_result demo_env Movie terminator netflix,
                     make_inline_result demo_env Movie undated empty_flatrate]
              + length (filter (\<lambda>result. \<not> has_field Movie result) (take 10 raw))
              = length (take 10 raw))
   \<and> \<not> has_field Movie nameless"
proof -
  have "\<not> has_field Movie nameless"
    by (simp add: has_field_def nameless_def)
  then show ?thesis
    using inline_results_have_field [OF demo_movie_map, of "lit ''terminator''"] demo_movie_map
    by blast
qed

lemma headless_search: "mediaQuery headless_env query type 1 = Inr headless_page"
  by (simp add: mediaQuery_def headless_env_def demo_env_def fetch_def status_ok_def)

lemma headless_results: "search_results headless_page = None"
  by (simp add: headless_page_def)

theorem missing_results_field_witness:
  "mediaQuery headless_env (lit ''terminator'') Movie 1 = Inr headless_page
   \<and> search_results headless_page = None
   \<and> getInlineResultsMap headless_env (lit ''terminator'') Movie = Inr None
   \<and> getInlineResultsMap headless_env (lit ''terminator'') TV = Inr None
   \<and> getInlineResults headless_env (lit ''terminator'') = Inl TypeError
   \<and> (\<exists>e. inline_query_handler headless_env (lit ''terminator'') (lit ''q1'') = Inl e)"
  using missing_results_field [OF headless_search headless_results, of "lit ''terminator''" Movie "lit ''q1''"]
    missing_results_field [OF headless_search headless_results, of "lit ''terminator''" TV "lit ''q1''"]
    headless_search headless_results
  by blast

lemma quiet_search: "mediaQuery quiet_env query type 1 = Inr empty_page"
  by (simp add: mediaQuery_def quiet_env_def demo_env_def fetch_def status_ok_def)

lemma quiet_results: "getInlineResults quiet_env query = Inr []"
  unfolding getInlineResults_Inr_iff getInlineResultsMap_Some_iff
  using quiet_search empty_page_results by auto

lemma demo_results:
  "getInlineResults demo_env query =
     Inr [make_inline_result demo_env Movie terminator netflix,
          make_inline_result demo_env Movie undated empty_flatrate]"
  unfolding getInlineResults_Inr_iff
  using demo_movie_map demo_tv_map by simp

theorem handler_replies_iff_nonempty_witness:
  "getInlineResults quiet_env (lit ''zzz'') = Inr []
   \<and> inline_query_handler quiet_env (lit ''zzz'') (lit ''q1'') = Inr []
   \<and> getInlineResults demo_env (lit ''terminator'') =
       Inr [make_inline_result demo_env Movie terminator netflix,
            make_inline_result demo_env Movie undated empty_flatrate]
   \<and> inline_query_handler demo_env (lit ''terminator'') (lit ''q2'') =
       Inr [answerInlineQuery (lit ''q2'')
              [make_inline_result demo_env Movie terminator netflix,
               make_inline_result demo_env Movie undated empty_flatrate] 0]"
  using handler_replies_iff_nonempty [of quiet_env "lit ''zzz''" "lit ''q1''"]
    handler_replies_iff_nonempty [of demo_env "lit ''terminator''" "lit ''q2''"
      "[make_inline_result demo_env Movie terminator netflix,
        make_inline_result demo_env Movie undated empty_flatrate]"]
    quiet_results demo_results
  by simp

section \<open>The catalogue cache\<close>

lemma getWatchProviders_hit:
  "WATCH_PROVIDERS st type = Some v \<Longrightarrow> getWatchProviders outcome type st = (Inr (Some v), st)"
  by (simp add: getWatchProviders_def getWatchProviders_enter_def)

lemma getWatchProviders_miss_fulfilled:
  "WATCH_PROVIDERS st type = None \<Longrightarrow>
   getWatchProviders (Inr v) type st =
     (Inr (Some v),
      st \<lparr> WATCH_PROVIDERS := (WATCH_PROVIDERS st)(type \<mapsto> v),
           effects := effects st @ [Fetched type, CacheSet type v] \<rparr>)"
  by (simp add: getWatchProviders_def getWatchProviders_enter_def getWatchProviders_resume_def
      Let_def fun_upd_idem)

lemma getWatchProviders_miss_rejected:
  "WATCH_PROVIDERS st type = None \<Longrightarrow>
   getWatchProviders (Inl e) type st = (Inl e, st \<lparr> effects := effects st @ [Fetched type] \<rparr>)"
  by (simp add: getWatchProviders_def getWatchProviders_enter_def getWatchProviders_resume_def
      Let_def)

lemma cache_inv_call:
  assumes "cache_inv st"
  shows "cache_inv (snd (getWatchProviders outcome type st))"
proof (cases "WATCH_PROVIDERS st type")
  case (Some v)
  with assms show ?thesis by (simp add: getWatchProviders_hit)
next
  case None
  show ?thesis
  proof (cases outcome)
    case (Inl e)
    with None assms show ?thesis
      by (simp add: getWatchProviders_miss_rejected cache_inv_def writes_def)
  next
    case (Inr v)
    with None assms show ?thesis
      by (auto simp: getWatchProviders_miss_fulfilled cache_inv_def writes_def)
  qed
qed

lemma cache_inv_run: "cache_inv st \<Longrightarrow> cache_inv (run_calls calls st)"
  by (induction calls arbitrary: st) (auto simp: cache_inv_call)

lemma cache_inv_empty: "cache_inv empty_cache"
  by (simp add: cache_inv_def empty_cache_def writes_def)

lemma stored_entry_call:
  assumes "WATCH_PROVIDERS st type = Some v"
  shows "WATCH_PROVIDERS (snd (getWatchProviders outcome t st)) type = Some v
     \<and> writes type (snd (getWatchProviders outcome t st)) = writes type st
     \<and> fetches type (snd (getWatchProviders outcome t st)) = fetches type st"
proof (cases "WATCH_PROVIDERS st t")
  case (Some w)
  with assms show ?thesis by (simp add: getWatchProviders_hit)
next
  case None
  with assms have other: "t \<noteq> type" by auto
  show ?thesis
  proof (cases outcome)
    case (Inl e)
    with None assms other show ?thesis
      by (simp add: getWatchProviders_miss_rejected writes_def fetches_def)
  next
    case (Inr w)
    with None assms other show ?thesis
      by (simp add: getWatchProviders_miss_fulfilled writes_def fetches_def)
  qed
qed

lemma stored_entry_run:
  "WATCH_PROVIDERS st type = Some v \<Longrightarrow>
   WATCH_PROVIDERS (run_calls calls st) type = Some v
   \<and> writes type (run_calls calls st) = writes type st
   \<and> fetches type (run_calls calls st) = fetches type st"
proof (induction calls arbitrary: st)
  case Nil
  then show ?case by simp
next
  case (Cons call calls)
  obtain t outcome where call: "call = (t, outcome)"
    by (cases call)
  let ?st = "snd (getWatchProviders outcome t st)"
  have step: "WATCH_PROVIDERS ?st type = Some v
     \<and> writes type ?st = writes type st \<and> fetches type ?st = fetches type st"
    using Cons.prems by (rule stored_entry_call)
  then have "WATCH_PROVIDERS (run_calls calls ?st) type = Some v
     \<and> writes type (run_calls calls ?st) = writes type ?st
     \<and> fetches type (run_calls calls ?st) = fetches type ?st"
    using Cons.IH by blast
  with step show ?case
    by (simp add: call)
qed

text \<open>
  Claim C7, as the code has it. When calls do not overlap (each settles before the next
  one starts), the entry of a media type is written at most once from the empty cache on.
  A call that finds the entry returns it without fetching and leaves the whole state as
  it is, and the entry stays as stored, with no further fetch or write for its type,
  through every later call. A call that finds no entry fetches; when the fetch fulfils
  it stores the value and returns it, and when the fetch rejects it stores nothing.
\<close>

theorem cache_written_once_when_sequential:
  "writes type (run_calls calls empty_cache) \<le> 1
   \<and> (WATCH_PROVIDERS st type = Some v \<longrightarrow>
        getWatchProviders outcome type st = (Inr (Some v), st))
   \<and> (WATCH_PROVIDERS st type = Some v \<longrightarrow>
        WATCH_PROVIDERS (run_calls calls st) type = Some v
        \<and> writes type (run_calls calls st) = writes type st
        \<and> fetches type (run_calls calls st) = fetches type st)
   \<and> (WATCH_PROVIDERS st type = None \<longrightarrow>
        getWatchProviders (Inr v) type st =
          (Inr (Some v),
           st \<lparr> WATCH_PROVIDERS := (WATCH_PROVIDERS st)(type \<mapsto> v),
                effects := effects st @ [Fetched type, CacheSet type v] \<rparr>))
   \<and> (WATCH_PROVIDERS st type = None \<longrightarrow>
        getWatchProviders (Inl e) type st =
          (Inl e, st \<lparr> effects := effects st @ [Fetched type] \<rparr>))"
proof -
  have "cache_inv (run_calls calls empty_cache)"
    using cache_inv_empty by (rule cache_inv_run)
  then have once: "writes type (run_calls calls empty_cache) \<le> 1"
    by (simp add: cache_inv_def)
  show ?thesis
    using once stored_entry_run [of st type v calls]
    by (simp add: getWatchProviders_hit getWatchProviders_miss_fulfilled
        getWatchProviders_miss_rejected)
qed

theorem cache_written_once_when_sequential_witness:
  "writes Movie (run_calls [(Movie, Inr catalog), (Movie, Inr catalog), (TV, Inr catalog)] empty_cache) = 1
   \<and> WATCH_PROVIDERS (empty_cache :: jsstring provider_cache) Movie = None
   \<and> getWatchProviders (Inr catalog) Movie empty_cache =
       (Inr (Some catalog),
        empty_cache \<lparr> WATCH_PROVIDERS := (WATCH_PROVIDERS empty_cache)(Movie \<mapsto> catalog),
                      effects := [Fetched Movie, CacheSet Movie catalog] \<rparr>)
   \<and> getWatchProviders (Inl SyntaxError) Movie empty_cache =
       (Inl SyntaxError, (empty_cache :: jsstring provider_cache) \<lparr> effects := [Fetched Movie] \<rparr>)
   \<and> WATCH_PROVIDERS (snd (getWatchProviders (Inr catalog) Movie empty_cache)) Movie = Some catalog
   \<and> getWatchProviders (Inl SyntaxError) Movie
        (snd (getWatchProviders (Inr catalog) Movie empty_cache)) =
       (Inr (Some catalog), snd (getWatchProviders (Inr catalog) Movie empty_cache))
   \<and> fetches Movie
        (run_calls [(TV, Inr catalog), (Movie, Inl SyntaxError)]
           (snd (getWatchProviders (Inr catalog) Movie empty_cache))) = 1"
proof -
  have none: "WATCH_PROVIDERS (empty_cache :: jsstring provider_cache) Movie = None"
    by (simp add: empty_cache_def)
  have first: "getWatchProviders (Inr catalog) Movie empty_cache =
       (Inr (Some catalog),
        empty_cache \<lparr> WATCH_PROVIDERS := (WATCH_PROVIDERS empty_cache)(Movie \<mapsto> catalog),
                      effects := effects empty_cache @ [Fetched Movie, CacheSet Movie catalog] \<rparr>)"
    using cache_written_once_when_sequential
      [where type = Movie and calls = "[]" and st = empty_cache and v = catalog] none
    by blast
  have rejected: "getWatchProviders (Inl SyntaxError) Movie empty_cache =
       (Inl SyntaxError,
        (empty_cache :: jsstring provider_cache) \<lparr> effects := effects empty_cache @ [Fetched Movie] \<rparr>)"
    using cache_written_once_when_sequential
      [where type = Movie and calls = "[]" and st = "empty_cache :: jsstring provider_cache"
         and e = SyntaxError] none
    by blast
  let ?st = "snd (getWatchProviders (Inr catalog) Movie (empty_cache :: jsstring provider_cache))"
  have stored: "WATCH_PROVIDERS ?st Movie = Some catalog"
    by (simp add: first)
  have second: "getWatchProviders (Inl SyntaxError) Movie ?st = (Inr (Some catalog), ?st)"
    using cache_written_once_when_sequential
      [where type = Movie and calls = "[]" and st = ?st and v = catalog
         and outcome = "Inl SyntaxError"] stored
    by blast
  have "fetches Movie (run_calls [(TV, Inr catalog), (Movie, Inl SyntaxError)] ?st)
          = fetches Movie ?st"
    using cache_written_once_when_sequential
      [where type = Movie and calls = "[(TV, Inr catalog), (Movie, Inl SyntaxError)]"
         and st = ?st and v = catalog] stored
    by blast
  moreover have "fetches Movie ?st = 1"
    unfolding first by (simp add: fetches_def empty_cache_def)
  ultimately have later: "fetches Movie (run_calls [(TV, Inr catalog), (Movie, Inl SyntaxError)] ?st) = 1"
    by simp
  have once: "writes Movie (run_calls [(Movie, Inr catalog), (Movie, Inr catalog), (TV, Inr catalog)] empty_cache) = 1"
    by (simp add: getWatchProviders_def getWatchProviders_enter_def getWatchProviders_resume_def
        Let_def empty_cache_def writes_def)
  show ?thesis
    using none first rejected stored second later once by (simp add: empty_cache_def)
qed

text \<open>
  A schedule in which two calls for the same media type both start before either fetch
  settles, and both fetches fulfil: the catalogue is fetched twice and the entry written
  twice. And a run of two calls, one after the other, in which the first fetch rejects:
  the second call fetches again.
\<close>

theorem cache_written_twice_counterexample:
  "map_option (writes Movie)
     (run_schedule [Call Movie, Call Movie, Settle Movie (Inr catalog), Settle Movie (Inr catalog)]
        empty_cache) = Some 2
   \<and> map_option (fetches Movie)
     (run_schedule [Call Movie, Call Movie, Settle Movie (Inr catalog), Settle Movie (Inr catalog)]
        empty_cache) = Some 2
   \<and> effects (run_calls [(Movie, Inl SyntaxError), (Movie, Inr catalog)] empty_cache) =
       [Fetched Movie, Fetched Movie, CacheSet Movie catalog]"
  by (simp add: getWatchProviders_def getWatchProviders_enter_def getWatchProviders_resume_def
      Let_def empty_cache_def writes_def fetches_def)

section \<open>The interactive search\<close>

lemma digits_value_snoc: "digits_value (ds @ [c]) = 10 * digits_value ds + (unat c - 48)"
  by (simp add: digits_value_def)

lemma unat_digit_unit: "d < 10 \<Longrightarrow> unat (digit_unit d) = 48 + d"
  unfolding digit_unit_def unat_of_nat by simp

lemma digits_value_nat_toString: "digits_value (nat_toString n) = n"
proof (induction n rule: nat_toString.induct)
  case (1 n)
  show ?case
  proof (cases "n < 10")
    case True
    then show ?thesis
      by (simp add: nat_toString.simps [of n] digits_value_def unat_digit_unit)
  next
    case False
    then show ?thesis
      using 1 by (simp add: nat_toString.simps [of n] digits_value_snoc unat_digit_unit)
  qed
qed

lemma nat_toString_inject: "nat_toString m = nat_toString n \<longleftrightarrow> m = n"
  by (metis digits_value_nat_toString)

lemma distinct_optNums: "distinct (optNums results)"
  by (simp add: optNums_def distinct_map inj_on_def nat_toString_inject)

lemma more_not_optNum: "nat_toString (Suc (length results)) \<notin> set (optNums results)"
  by (auto simp: optNums_def nat_toString_inject)

lemma optNum_member: "k < length results \<Longrightarrow> nat_toString (Suc k) \<in> set (optNums results)"
  by (auto simp: optNums_def)

lemma resultsMap_more:
  "map_of (rev (zip (optNums results) results)) (nat_toString (Suc (length results))) = None"
proof -
  have "nat_toString (Suc (length results)) \<notin> fst ` set (rev (zip (optNums results) results))"
    using more_not_optNum [of results] by (auto dest: set_zip_leftD)
  then show ?thesis
    by (simp add: map_of_eq_None_iff)
qed

lemma resultsMap_result:
  assumes "k < length results"
  shows "map_of (rev (zip (optNums results) results)) (nat_toString (Suc k)) = Some (results ! k)"
proof -
  have len: "length (optNums results) = length results"
    by (simp add: optNums_def)
  have d: "distinct (map fst (rev (zip (optNums results) results)))"
    using distinct_optNums [of results] len by (simp add: rev_map [symmetric])
  have k: "k < length (zip (optNums results) results)"
    using assms len by simp
  have "zip (optNums results) results ! k = (nat_toString (Suc k), results ! k)"
    using assms len by (simp add: optNums_def)
  then have "(nat_toString (Suc k), results ! k) \<in> set (zip (optNums results) results)"
    using nth_mem [OF k] by simp
  then have "(nat_toString (Suc k), results ! k) \<in> set (rev (zip (optNums results) results))"
    by simp
  with d show ?thesis
    by simp
qed

lemma menu_show_more:
  "length (menu env results True) = length results + 1
   \<and> menu env results True ! length results = show_more_line (length results)"
  by (simp add: menu_def nth_append)

lemma getAnswerFromUser_more:
  "getAnswerFromUser env results True (nat_toString (Suc (length results)) # rest) =
     Some (menu env results True, None, rest)"
  by (simp add: getAnswerFromUser_def Let_def resultsMap_more)

lemma getAnswerFromUser_result:
  "k < length results \<Longrightarrow>
   getAnswerFromUser env results showMoreResults (nat_toString (Suc k) # rest) =
     Some (menu env results showMoreResults, Some (result_id (results ! k)), rest)"
  by (simp add: getAnswerFromUser_def Let_def resultsMap_result optNum_member)

lemma userSearch_show_more:
  assumes "mediaQuery env query type page = Inr search"
    and "search_results search = Some results"
    and "page < total_pages search"
  shows "userSearch env query type page (nat_toString (length results + 1) # rest) =
     (case userSearch env query type (page + 1) rest of
        None \<Rightarrow> None
      | Some (out', r) \<Rightarrow> Some (menu env results True @ out', r))"
  using assms
  by (simp add: userSearch.simps [of env query type page] getAnswerFromUser_more truthy_id_def)

lemma userSearch_result:
  assumes "mediaQuery env query type page = Inr search"
    and "search_results search = Some results"
    and "k < length results"
    and "result_id (results ! k) \<noteq> 0"
  shows "userSearch env query type page (nat_toString (k + 1) # rest) =
     Some (menu env results (page < total_pages search),
           (case getMediaById env (result_id (results ! k)) type of
              Inl e \<Rightarrow> Inl e
            | Inr details \<Rightarrow> Inr (Some details)))"
  using assms
  by (simp add: userSearch.simps [of env query type page] getAnswerFromUser_result truthy_id_def
      Let_def split: sum.split)

lemma userSearch_zero_id_more_pages:
  assumes "mediaQuery env query type page = Inr search"
    and "search_results search = Some results"
    and "k < length results"
    and "result_id (results ! k) = 0"
    and "page < total_pages search"
  shows "userSearch env query type page (nat_toString (k + 1) # rest) =
     (case userSearch env query type (page + 1) rest of
        None \<Rightarrow> None
      | Some (out', r) \<Rightarrow> Some (menu env results True @ out', r))"
  using assms
  by (simp add: userSearch.simps [of env query type page] getAnswerFromUser_result truthy_id_def
      Let_def split: option.split)

lemma userSearch_zero_id_last_page:
  assumes "mediaQuery env query type page = Inr search"
    and "search_results search = Some results"
    and "k < length results"
    and "result_id (results ! k) = 0"
    and "\<not> page < total_pages search"
  shows "userSearch env query type page (nat_toString (k + 1) # rest) =
     Some (menu env results False, Inr None)"
  using assms
  by (simp add: userSearch.simps [of env query type page] getAnswerFromUser_result truthy_id_def
      Let_def)

text \<open>
  The example of a first page out of three: the option for more results is the third
  line, numbered 3, and choosing it searches page 2.
\<close>

lemma paged_search: "mediaQuery paged_env query type page = Inr three_pages"
  by (simp add: mediaQuery_def paged_env_def demo_env_def fetch_def status_ok_def)

lemma three_pages_fields:
  "search_results three_pages = Some [terminator, undated] \<and> total_pages three_pages = 3"
  by (simp add: three_pages_def)

lemma three: "nat_toString (Suc (Suc (Suc 0))) = lit ''3''"
  by (simp add: nat_toString.simps [of "Suc (Suc (Suc 0))"] digit_unit_def lit_def)

lemma paged_show_more:
  "menu paged_env [terminator, undated] True ! 2 = lit ''3. [SHOW MORE RESULTS]\<newline>''
   \<and> userSearch paged_env query type 1 (lit ''3'' # rest) =
       (case userSearch paged_env query type 2 rest of
          None \<Rightarrow> None
        | Some (out', r) \<Rightarrow> Some (menu paged_env [terminator, undated] True @ out', r))"
proof -
  have "menu paged_env [terminator, undated] True ! 2 = show_more_line 2"
    using menu_show_more [of paged_env "[terminator, undated]"] by (simp add: numeral_2_eq_2)
  moreover have "show_more_line 2 = lit ''3. [SHOW MORE RESULTS]\<newline>''"
    by (simp add: show_more_line_def three lit_def numeral_2_eq_2)
  moreover have "userSearch paged_env query type 1 (nat_toString (length [terminator, undated] + 1) # rest) =
       (case userSearch paged_env query type (1 + 1) rest of
          None \<Rightarrow> None
        | Some (out', r) \<Rightarrow> Some (menu paged_env [terminator, undated] True @ out', r))"
    by (rule userSearch_show_more [OF paged_search]) (simp_all add: three_pages_fields)
  ultimately show ?thesis
    by (simp add: three)
qed

lemma one: "nat_toString (Suc 0) = lit ''1''"
  by (simp add: nat_toString.simps [of "Suc 0"] digit_unit_def lit_def)

lemma zero_first_page: "mediaQuery zero_env query type 1 = Inr zero_page"
  by (simp add: mediaQuery_def zero_env_def fetch_def status_ok_def)

lemma zero_second_page: "mediaQuery zero_env query type 2 = Inr later_page"
  by (simp add: mediaQuery_def zero_env_def fetch_def status_ok_def lit_def)

lemma zero_page_fields:
  "search_results zero_page = Some [zero_id] \<and> total_pages zero_page = 3
   \<and> result_id zero_id = 0"
  by (simp add: zero_page_def zero_id_def)

lemma later_page_fields:
  "search_results later_page = Some [terminator] \<and> total_pages later_page = 3
   \<and> result_id terminator = 218"
  by (simp add: later_page_def terminator_def)

lemma zero_details: "getMediaById zero_env 0 Movie = Inr (lit ''0'')"
  by (simp add: getMediaById_def zero_env_def fetch_def status_ok_def int_toString_def
      nat_toString.simps [of 0] digit_unit_def lit_def)

lemma terminator_details: "getMediaById zero_env 218 Movie = Inr (lit ''218'')"
  by code_simp

lemma zero_menu:
  "menu zero_env [zero_id] True =
     [lit ''1. Zero (1984)\<newline>'', lit ''2. [SHOW MORE RESULTS]\<newline>'']"
  by code_simp

lemma zero_first_choice:
  "userSearch zero_env query Movie 1 (lit ''1'' # rest) =
     (case userSearch zero_env query Movie 2 rest of
        None \<Rightarrow> None
      | Some (out', r) \<Rightarrow> Some (menu zero_env [zero_id] True @ out', r))"
proof -
  have "userSearch zero_env query Movie 1 (nat_toString (0 + 1) # rest) =
     (case userSearch zero_env query Movie (1 + 1) rest of
        None \<Rightarrow> None
      | Some (out', r) \<Rightarrow> Some (menu zero_env [zero_id] True @ out', r))"
    by (rule userSearch_zero_id_more_pages [OF zero_first_page])
       (simp_all add: zero_page_fields)
  then show ?thesis
    by (simp add: one)
qed

lemma zero_second_choice:
  "userSearch zero_env query Movie 2 [lit ''1''] =
     Some (menu zero_env [terminator] True, Inr (Some (lit ''218'')))"
proof -
  have "userSearch zero_env query Movie 2 (nat_toString (0 + 1) # []) =
     Some (menu zero_env [terminator] (2 < total_pages later_page),
           (case getMediaById zero_env (result_id ([terminator] ! 0)) Movie of
              Inl e \<Rightarrow> Inl e
            | Inr details \<Rightarrow> Inr (Some details)))"
    by (rule userSearch_result [OF zero_second_page])
       (simp_all add: later_page_fields)
  then show ?thesis
    by (simp add: one later_page_fields terminator_details)
qed

lemma zero_no_more_input: "userSearch zero_env query Movie 2 [] = None"
  by (simp add: userSearch.simps [of zero_env query Movie 2] zero_second_page later_page_fields
      getAnswerFromUser_def Let_def)

text \<open>
  Claim C8 at a result whose identifier is zero, on page 1 of 3. The operator picks
  option 1, the title with identifier 0, whose details could be fetched. \<open>if (id)\<close>
  takes the zero for no selection: \<open>userSearch\<close> fetches no details, searches page 2
  as if the option for more results had been chosen and asks again; a second answer 1
  returns the details of the first title of page 2. For identifiers other than zero the
  claim holds (\<open>menu_show_more\<close>, \<open>userSearch_show_more\<close>, \<open>userSearch_result\<close>).
\<close>

theorem userSearch_zero_id_searches_next_page:
  "mediaQuery zero_env (lit ''zero'') Movie 1 = Inr zero_page
   \<and> search_results zero_page = Some [zero_id]
   \<and> 1 < total_pages zero_page
   \<and> result_id zero_id = 0
   \<and> getMediaById zero_env 0 Movie = Inr (lit ''0'')
   \<and> menu zero_env [zero_id] True =
       [lit ''1. Zero (1984)\<newline>'', lit ''2. [SHOW MORE RESULTS]\<newline>'']
   \<and> userSearch zero_env (lit ''zero'') Movie 1 [lit ''1''] = None
   \<and> userSearch zero_env (lit ''zero'') Movie 1 [lit ''1'', lit ''1''] =
       Some (menu zero_env [zero_id] True @ menu zero_env [terminator] True,
             Inr (Some (lit ''218'')))"
proof -
  have waiting: "userSearch zero_env (lit ''zero'') Movie 1 [lit ''1''] = None"
    by (simp add: zero_first_choice zero_no_more_input)
  have wrong_title: "userSearch zero_env (lit ''zero'') Movie 1 [lit ''1'', lit ''1''] =
       Some (menu zero_env [zero_id] True @ menu zero_env [terminator] True,
             Inr (Some (lit ''218'')))"
    by (simp add: zero_first_choice zero_second_choice)
  have more: "1 < total_pages zero_page"
    by (simp add: zero_page_fields)
  show ?thesis
    using waiting wrong_title more zero_first_page zero_page_fields zero_details zero_menu
    by blast
qed

end
